theory Spec2Isabelle
  imports Complex_Main
begin

section \<open>The JavaScript values that reach a Characteristic\<close>

text \<open>
  The source is TypeScript running on Node.js, so \<open>Characteristic.ts\<close> works on
  dynamically typed values. This section fixes the fragment of the language that the
  translated methods use.

  \<^item> A string is its sequence of UTF-16 code units (\<open>.length\<close> and \<open>substring\<close> count
    those); \<open>js ''abc''\<close> writes a literal.
  \<^item> A finite number is the rational that its decimal notation denotes (what
    \<open>Number.prototype.toString\<close> prints and what decimal.js reads back); \<open>NaN\<close> and
    the two infinities are separate values. Rounding to 53 bits, the sign of zero,
    overflow of a literal beyond the double range and decimal.js's limit of 20
    significant digits are not represented: arithmetic is exact.
  \<^item> A value is \<open>undefined\<close>, \<open>null\<close>, a boolean, a number, a string, or one of the
    two objects that \<open>getDefaultValue\<close> creates, \<open>[]\<close> and \<open>{}\<close>. Other arrays and
    dictionaries are not represented, and neither is object identity: \<open>===\<close> on two
    objects is reference equality in the source and \<open>False\<close> here (every object is
    taken to be a fresh one).
\<close>

type_synonym jsstring = "nat list"

abbreviation js :: "string \<Rightarrow> jsstring" where
  "js s \<equiv> map of_char s"

datatype jsnum = Fin rat | PosInf | NegInf | NaN

datatype jsvalue =
    JUndefined
  | JNull
  | JBool bool
  | JNum jsnum
  | JStr jsstring
  | JEmptyArray
  | JEmptyDict

datatype error = Error jsstring | TypeError

subsection \<open>Characters and digits\<close>

definition is_ws :: "nat \<Rightarrow> bool" where
  \<comment> \<open>WhiteSpace and LineTerminator of ECMAScript, as stripped by parseInt, parseFloat and Number\<close>
  "is_ws c = (c \<in> {9, 10, 11, 12, 13, 32, 160, 5760, 8232, 8233, 8239, 8287, 12288, 65279}
              \<or> (8192 \<le> c \<and> c \<le> 8202))"

definition is_digit :: "nat \<Rightarrow> bool" where
  "is_digit c = (48 \<le> c \<and> c \<le> 57)"

definition digit_val :: "nat \<Rightarrow> nat option" where
  "digit_val c = (if 48 \<le> c \<and> c \<le> 57 then Some (c - 48)
                  else if 97 \<le> c \<and> c \<le> 122 then Some (c - 87)
                  else if 65 \<le> c \<and> c \<le> 90 then Some (c - 55)
                  else None)"

definition is_radix_digit :: "nat \<Rightarrow> nat \<Rightarrow> bool" where
  "is_radix_digit r c = (case digit_val c of Some d \<Rightarrow> d < r | None \<Rightarrow> False)"

definition radix_val :: "nat \<Rightarrow> nat list \<Rightarrow> nat" where
  "radix_val r ds = foldl (\<lambda>a c. r * a + (case digit_val c of Some d \<Rightarrow> d | None \<Rightarrow> 0)) 0 ds"

fun nat_digits :: "nat \<Rightarrow> nat list" where
  "nat_digits n = (if n < 10 then [48 + n] else nat_digits (n div 10) @ [48 + n mod 10])"

declare nat_digits.simps [simp del]

definition pow10 :: "int \<Rightarrow> rat" where
  "pow10 e = (if 0 \<le> e then 10 ^ nat e else 1 / 10 ^ nat (- e))"

definition is_int :: "rat \<Rightarrow> bool" where
  "is_int q = (of_int \<lfloor>q\<rfloor> = q)"

definition trunc :: "rat \<Rightarrow> int" where
  \<comment> \<open>rounding towards zero\<close>
  "trunc q = (if 0 \<le> q then \<lfloor>q\<rfloor> else \<lceil>q\<rceil>)"

definition strip_sign :: "jsstring \<Rightarrow> int \<times> jsstring" where
  "strip_sign s = (case s of
       [] \<Rightarrow> (1, [])
     | c # cs \<Rightarrow> if c = 45 then (- 1, cs) else if c = 43 then (1, cs) else (1, c # cs))"

definition starts_with :: "jsstring \<Rightarrow> jsstring \<Rightarrow> bool" where
  "starts_with p s = (take (length p) s = p)"

definition trim :: "jsstring \<Rightarrow> jsstring" where
  "trim s = rev (dropWhile is_ws (rev (dropWhile is_ws s)))"

subsection \<open>Number to string\<close>

fun frac_places :: "nat \<Rightarrow> rat \<Rightarrow> nat" where
  \<comment> \<open>the number of digits after the decimal point of a decimal fraction (searched
      within the first argument, which 400 exceeds for every double)\<close>
  "frac_places fuel q =
     (if fuel = 0 \<or> is_int q then 0 else Suc (frac_places (fuel - 1) (q * 10)))"

declare frac_places.simps [simp del]

definition num_parts :: "rat \<Rightarrow> jsstring \<times> int" where
  \<comment> \<open>the digits \<open>s\<close> (without trailing zeros) and the exponent \<open>n\<close> of Number::toString:
      \<open>|q| = 0.s * 10 ^ n\<close>\<close>
  "num_parts q =
     (let d = frac_places 400 q;
          ds = nat_digits (nat \<lfloor>\<bar>q\<bar> * 10 ^ d\<rfloor>)
      in (rev (dropWhile (\<lambda>c. c = 48) (rev ds)), int (length ds) - int d))"

definition Number_toString :: "jsnum \<Rightarrow> jsstring" where
  "Number_toString x = (case x of
       NaN \<Rightarrow> js ''NaN''
     | PosInf \<Rightarrow> js ''Infinity''
     | NegInf \<Rightarrow> js ''-Infinity''
     | Fin q \<Rightarrow>
         if q = 0 then js ''0''
         else (let (s, n) = num_parts q;
                   k = int (length s);
                   sgn = (if q < 0 then js ''-'' else [])
               in sgn @
                 (if k \<le> n \<and> n \<le> 21 then s @ replicate (nat (n - k)) 48
                  else if 0 < n \<and> n \<le> 21 then take (nat n) s @ [46] @ drop (nat n) s
                  else if - 6 < n \<and> n \<le> 0 then [48, 46] @ replicate (nat (- n)) 48 @ s
                  else (let e = n - 1;
                            es = (if e < 0 then [45] else [43]) @ nat_digits (nat \<bar>e\<bar>)
                        in if k = 1 then s @ [101] @ es
                           else [hd s, 46] @ tl s @ [101] @ es))))"

definition ToString :: "jsvalue \<Rightarrow> jsstring" where
  "ToString v = (case v of
       JUndefined \<Rightarrow> js ''undefined''
     | JNull \<Rightarrow> js ''null''
     | JBool b \<Rightarrow> (if b then js ''true'' else js ''false'')
     | JNum x \<Rightarrow> Number_toString x
     | JStr s \<Rightarrow> s
     | JEmptyArray \<Rightarrow> []
     | JEmptyDict \<Rightarrow> js ''[object Object]'')"

subsection \<open>String to number\<close>

definition scan_exponent :: "jsstring \<Rightarrow> int \<times> jsstring" where
  \<comment> \<open>an ExponentPart at the head of the string, if there is a complete one\<close>
  "scan_exponent s = (case s of
       [] \<Rightarrow> (0, [])
     | c # cs \<Rightarrow>
         if c = 101 \<or> c = 69 then
           (let (sg, t) = strip_sign cs; ds = takeWhile is_digit t
            in if ds = [] then (0, s) else (sg * int (radix_val 10 ds), dropWhile is_digit t))
         else (0, s))"

definition scan_decimal :: "jsstring \<Rightarrow> (jsnum \<times> jsstring) option" where
  \<comment> \<open>the longest prefix that is a StrDecimalLiteral, its value and the rest\<close>
  "scan_decimal str =
     (let (sign, s) = strip_sign str in
      if starts_with (js ''Infinity'') s
      then Some (if sign < 0 then NegInf else PosInf, drop 8 s)
      else (let ip = takeWhile is_digit s;
                s1 = dropWhile is_digit s;
                dot = (s1 \<noteq> [] \<and> hd s1 = 46);
                fp = (if dot then takeWhile is_digit (tl s1) else []);
                s2 = (if dot then dropWhile is_digit (tl s1) else s1)
            in if ip = [] \<and> fp = [] then None
               else (let (e, rest) = scan_exponent s2
                     in Some (Fin (of_int sign * of_nat (radix_val 10 (ip @ fp))
                                     * pow10 (e - int (length fp))), rest))))"

definition parseFloat_str :: "jsstring \<Rightarrow> jsnum" where
  "parseFloat_str s = (case scan_decimal (dropWhile is_ws s) of
       None \<Rightarrow> NaN
     | Some (x, _) \<Rightarrow> x)"

definition parseInt_str :: "jsstring \<Rightarrow> nat \<Rightarrow> jsnum" where
  \<comment> \<open>radix 0 stands for a call without radix\<close>
  "parseInt_str str radix =
     (let (sign, s) = strip_sign (dropWhile is_ws str);
          hex = ((radix = 0 \<or> radix = 16) \<and> (starts_with (js ''0x'') s \<or> starts_with (js ''0X'') s));
          r = (if hex then 16 else if radix = 0 then 10 else radix);
          z = takeWhile (is_radix_digit r) (if hex then drop 2 s else s)
      in if z = [] then NaN else Fin (of_int sign * of_nat (radix_val r z)))"

definition prefixed_literal :: "nat \<Rightarrow> jsstring \<Rightarrow> jsnum" where
  "prefixed_literal r ds =
     (if ds \<noteq> [] \<and> list_all (is_radix_digit r) ds then Fin (of_nat (radix_val r ds)) else NaN)"

definition StringToNumber :: "jsstring \<Rightarrow> jsnum" where
  "StringToNumber str =
     (let t = trim str in
      if t = [] then Fin 0
      else if starts_with (js ''0x'') t \<or> starts_with (js ''0X'') t then prefixed_literal 16 (drop 2 t)
      else if starts_with (js ''0o'') t \<or> starts_with (js ''0O'') t then prefixed_literal 8 (drop 2 t)
      else if starts_with (js ''0b'') t \<or> starts_with (js ''0B'') t then prefixed_literal 2 (drop 2 t)
      else (case scan_decimal t of
              Some (x, []) \<Rightarrow> x
            | _ \<Rightarrow> NaN))"

definition ToNumber :: "jsvalue \<Rightarrow> jsnum" where
  "ToNumber v = (case v of
       JUndefined \<Rightarrow> NaN
     | JNull \<Rightarrow> Fin 0
     | JBool b \<Rightarrow> (if b then Fin 1 else Fin 0)
     | JNum x \<Rightarrow> x
     | JStr s \<Rightarrow> StringToNumber s
     | JEmptyArray \<Rightarrow> StringToNumber (ToString JEmptyArray)
     | JEmptyDict \<Rightarrow> StringToNumber (ToString JEmptyDict))"

definition parseInt :: "jsvalue \<Rightarrow> nat \<Rightarrow> jsnum" where
  "parseInt v radix = parseInt_str (ToString v) radix"

definition parseFloat :: "jsvalue \<Rightarrow> jsnum" where
  \<comment> \<open>a number prints in a notation that \<open>parseFloat\<close> reads back as the same number\<close>
  "parseFloat v = (case v of JNum x \<Rightarrow> x | _ \<Rightarrow> parseFloat_str (ToString v))"

definition isNaN :: "jsnum \<Rightarrow> bool" where
  "isNaN x = (x = NaN)"

subsection \<open>Comparison, equality, truthiness\<close>

fun num_lt :: "jsnum \<Rightarrow> jsnum \<Rightarrow> bool" where
  "num_lt (Fin a) (Fin b) = (a < b)"
| "num_lt (Fin a) PosInf = True"
| "num_lt NegInf (Fin b) = True"
| "num_lt NegInf PosInf = True"
| "num_lt _ _ = False"

definition js_lt :: "jsvalue \<Rightarrow> jsvalue \<Rightarrow> bool" where
  \<comment> \<open>\<open>a < b\<close> where at least one side is not a string\<close>
  "js_lt a b = num_lt (ToNumber a) (ToNumber b)"

definition js_gt :: "jsvalue \<Rightarrow> jsvalue \<Rightarrow> bool" where
  "js_gt a b = num_lt (ToNumber b) (ToNumber a)"

fun strict_eq :: "jsvalue \<Rightarrow> jsvalue \<Rightarrow> bool" where
  "strict_eq JUndefined JUndefined = True"
| "strict_eq JNull JNull = True"
| "strict_eq (JBool a) (JBool b) = (a = b)"
| "strict_eq (JNum a) (JNum b) = (a \<noteq> NaN \<and> a = b)"
| "strict_eq (JStr a) (JStr b) = (a = b)"
| "strict_eq _ _ = False"

definition loose_eq_true :: "jsvalue \<Rightarrow> bool" where
  \<comment> \<open>\<open>v == true\<close>: the boolean becomes the number 1, then \<open>v\<close> is compared as a number;
      \<open>null\<close> and \<open>undefined\<close> equal only each other\<close>
  "loose_eq_true v = (case v of
       JUndefined \<Rightarrow> False
     | JNull \<Rightarrow> False
     | _ \<Rightarrow> ToNumber v = Fin 1)"

definition is_nullish :: "jsvalue \<Rightarrow> bool" where
  \<comment> \<open>\<open>v == undefined\<close>, \<open>v == null\<close>\<close>
  "is_nullish v = (v = JUndefined \<or> v = JNull)"

definition truthy :: "jsvalue \<Rightarrow> bool" where
  \<comment> \<open>ToBoolean\<close>
  "truthy v = (case v of
       JUndefined \<Rightarrow> False
     | JNull \<Rightarrow> False
     | JBool b \<Rightarrow> b
     | JNum x \<Rightarrow> x \<noteq> NaN \<and> x \<noteq> Fin 0
     | JStr s \<Rightarrow> s \<noteq> []
     | JEmptyArray \<Rightarrow> True
     | JEmptyDict \<Rightarrow> True)"

subsection \<open>decimal.js and Math\<close>

definition Decimal_mod :: "rat \<Rightarrow> rat \<Rightarrow> rat" where
  \<comment> \<open>\<open>x.mod(y)\<close> in decimal.js's default mode: the remainder of the division truncated
      towards zero, so it has the sign of \<open>x\<close>\<close>
  "Decimal_mod x y = x - y * of_int (trunc (x / y))"

definition Decimal_toFixed :: "rat \<Rightarrow> nat \<Rightarrow> rat" where
  \<comment> \<open>the number that \<open>x.toFixed(dp)\<close> prints: \<open>x\<close> rounded to \<open>dp\<close> decimal places,
      halves away from zero (decimal.js's default rounding mode)\<close>
  "Decimal_toFixed x dp = sgn x * of_int \<lfloor>\<bar>x\<bar> * 10 ^ dp + 1 / 2\<rfloor> / 10 ^ dp"

definition Math_round :: "jsnum \<Rightarrow> jsnum" where
  "Math_round x = (case x of Fin q \<Rightarrow> Fin (of_int \<lfloor>q + 1 / 2\<rfloor>) | _ \<Rightarrow> x)"

fun split_on :: "nat \<Rightarrow> jsstring \<Rightarrow> jsstring list" where
  \<comment> \<open>\<open>str.split(sep)\<close> for a separator of one character\<close>
  "split_on sep [] = [[]]"
| "split_on sep (c # cs) =
     (if c = sep then [] # split_on sep cs
      else (case split_on sep cs of p # ps \<Rightarrow> (c # p) # ps | [] \<Rightarrow> [[c]]))"

section \<open>The data model of Characteristic.ts\<close>

datatype Formats =
  BOOL | INT_fmt | FLOAT | STRING | UINT8 | UINT16 | UINT32 | UINT64 | DATA | TLV8 | ARRAY | DICTIONARY

text \<open>\<open>INT_fmt\<close> is \<open>Formats.INT\<close> (the bare name is taken by Isabelle's syntax).\<close>

datatype Units = CELSIUS | PERCENTAGE | ARC_DEGREE | LUX | SECONDS

text \<open>
  The deprecated \<open>READ\<close>, \<open>WRITE\<close> and the second name \<open>EVENTS\<close> have the string values of
  \<open>PAIRED_READ\<close>, \<open>PAIRED_WRITE\<close> and \<open>NOTIFY\<close>: they are the same permissions.
\<close>

datatype Perms =
  PAIRED_READ | PAIRED_WRITE | NOTIFY | ADDITIONAL_AUTHORIZATION | TIMED_WRITE | HIDDEN | WRITE_RESPONSE

datatype Access = ACCESS_READ | ACCESS_WRITE | ACCESS_NOTIFY

text \<open>
  An optional property is \<open>None\<close> when it is \<open>undefined\<close> (or the \<open>null\<close> that the
  constructor's default shape stores); a declared numeric constraint is a finite number.
\<close>

record CharacteristicProps =
  format :: "Formats option"
  perms :: "Perms list"
  unit :: "Units option"
  description :: "jsstring option"
  minValue :: "rat option"
  maxValue :: "rat option"
  minStep :: "rat option"
  maxLen :: "rat option"
  maxDataLen :: "rat option"
  validValues :: "rat list option"
  validValueRanges :: "(rat \<times> rat) option"
  adminOnlyAccess :: "Access list option"

text \<open>
  \<open>Partial<CharacteristicProps>\<close>, the argument of \<open>setProps\<close>: every key is present
  (\<open>Some\<close>, with the value it carries) or absent (\<open>None\<close>).
\<close>

record PartialProps =
  set_format :: "Formats option option"
  set_perms :: "Perms list option"
  set_unit :: "Units option option"
  set_description :: "jsstring option option"
  set_minValue :: "rat option option"
  set_maxValue :: "rat option option"
  set_minStep :: "rat option option"
  set_maxLen :: "rat option option"
  set_maxDataLen :: "rat option option"
  set_validValues :: "rat list option option"
  set_validValueRanges :: "(rat \<times> rat) option option"
  set_adminOnlyAccess :: "Access list option option"

text \<open>
  The members of the enum \<open>Status\<close> that Characteristic.ts names. The enum is declared in
  \<open>./HAPServer\<close>, which is not among the sources, so its numbers are a parameter.
\<close>

record Status =
  SUCCESS :: int
  WRITE_ONLY_CHARACTERISTIC :: int
  SERVICE_COMMUNICATION_FAILURE :: int
  INSUFFICIENT_PRIVILEGES :: int
  NOT_ALLOWED_IN_CURRENT_STATE :: int

text \<open>
  The object state. \<open>c_value\<close> is the field \<open>value\<close>. Of the EventEmitter the class
  extends, the state keeps the number of listeners registered for "get" and for "set",
  which is all that the methods ask of it.
\<close>

record Characteristic =
  displayName :: jsstring
  UUID :: jsstring
  iid :: "nat option"
  c_value :: jsvalue
  status :: int
  eventOnlyCharacteristic :: bool
  props :: CharacteristicProps
  subscriptions :: int
  get_listeners :: nat
  set_listeners :: nat

text \<open>What \<open>this.emit\<close> broadcasts; the context and session tokens are left out.\<close>

datatype event =
    EvGet
  | EvSet jsvalue
  | EvChange jsvalue jsvalue  \<comment> \<open>oldValue, newValue\<close>
  | EvSubscribe
  | EvUnsubscribe

section \<open>setProps and the constructor\<close>

definition assign_props :: "CharacteristicProps \<Rightarrow> PartialProps \<Rightarrow> CharacteristicProps" where
  \<comment> \<open>the loop \<open>this.props[key] = props[key]\<close> over the keys that are present\<close>
  "assign_props p u =
     \<lparr> format = (case set_format u of Some v \<Rightarrow> v | None \<Rightarrow> format p),
       perms = (case set_perms u of Some v \<Rightarrow> v | None \<Rightarrow> perms p),
       unit = (case set_unit u of Some v \<Rightarrow> v | None \<Rightarrow> unit p),
       description = (case set_description u of Some v \<Rightarrow> v | None \<Rightarrow> description p),
       minValue = (case set_minValue u of Some v \<Rightarrow> v | None \<Rightarrow> minValue p),
       maxValue = (case set_maxValue u of Some v \<Rightarrow> v | None \<Rightarrow> maxValue p),
       minStep = (case set_minStep u of Some v \<Rightarrow> v | None \<Rightarrow> minStep p),
       maxLen = (case set_maxLen u of Some v \<Rightarrow> v | None \<Rightarrow> maxLen p),
       maxDataLen = (case set_maxDataLen u of Some v \<Rightarrow> v | None \<Rightarrow> maxDataLen p),
       validValues = (case set_validValues u of Some v \<Rightarrow> v | None \<Rightarrow> validValues p),
       validValueRanges = (case set_validValueRanges u of Some v \<Rightarrow> v | None \<Rightarrow> validValueRanges p),
       adminOnlyAccess = (case set_adminOnlyAccess u of Some v \<Rightarrow> v | None \<Rightarrow> adminOnlyAccess p) \<rparr>"

definition no_props :: PartialProps where
  \<comment> \<open>the literal \<open>{}\<close>\<close>
  "no_props =
     \<lparr> set_format = None, set_perms = None, set_unit = None, set_description = None,
       set_minValue = None, set_maxValue = None, set_minStep = None, set_maxLen = None,
       set_maxDataLen = None, set_validValues = None, set_validValueRanges = None,
       set_adminOnlyAccess = None \<rparr>"

definition setProps_message :: "jsstring \<Rightarrow> jsstring" where
  "setProps_message name =
     js ''Error setting CharacteristicsProps for '' @ [39] @ name @ [39]
       @ js '': '' @ [39] @ js ''minValue'' @ [39] @ js '' cannot be greater or equal the ''
       @ [39] @ js ''maxValue'' @ [39] @ js ''!''"

definition setProps :: "Characteristic \<Rightarrow> PartialProps \<Rightarrow> Characteristic \<times> error option" where
  \<comment> \<open>the object after the call, and the error if the call throws (otherwise it
      returns the object)\<close>
  "setProps this u =
     (let p = assign_props (props this) u in
      case (minValue p, maxValue p) of
        (Some lo, Some hi) \<Rightarrow>
          if lo > hi
          then (this\<lparr>props := p\<lparr>minValue := None, maxValue := None\<rparr>\<rparr>,
                Some (Error (setProps_message (displayName this))))
          else (this\<lparr>props := p\<rparr>, None)
      | _ \<Rightarrow> (this\<lparr>props := p\<rparr>, None))"

definition default_props :: CharacteristicProps where
  "default_props =
     \<lparr> format = None, perms = [], unit = None, description = None, minValue = None,
       maxValue = None, minStep = None, maxLen = None, maxDataLen = None,
       validValues = None, validValueRanges = None, adminOnlyAccess = None \<rparr>"

definition new_Characteristic ::
  "Status \<Rightarrow> jsstring \<Rightarrow> jsstring \<Rightarrow> CharacteristicProps option \<Rightarrow> error + Characteristic" where
  "new_Characteristic S name uuid p =
     (let this = \<lparr> displayName = name, UUID = uuid, iid = None, c_value = JNull,
                   status = SUCCESS S, eventOnlyCharacteristic = False,
                   props = (case p of Some q \<Rightarrow> q | None \<Rightarrow> default_props),
                   subscriptions = 0, get_listeners = 0, set_listeners = 0 \<rparr>
      in case setProps this no_props of
           (this', None) \<Rightarrow> Inr this'
         | (_, Some e) \<Rightarrow> Inl e)"

section \<open>subscribe and unsubscribe\<close>

definition subscribe :: "Characteristic \<Rightarrow> Characteristic \<times> event list" where
  "subscribe this =
     (this\<lparr>subscriptions := subscriptions this + 1\<rparr>,
      if subscriptions this = 0 then [EvSubscribe] else [])"

definition unsubscribe :: "Characteristic \<Rightarrow> Characteristic \<times> event list" where
  "unsubscribe this =
     (let wasOne = (subscriptions this = 1)
      in (this\<lparr>subscriptions := max (subscriptions this - 1) 0\<rparr>,
          if wasOne then [EvUnsubscribe] else []))"

section \<open>validateValue\<close>

text \<open>
  The switch at the head of \<open>validateValue\<close> gives the numeric formats their defaults.
  The literal \<open>18446744073709551615\<close> of UINT64 is not a double: JavaScript reads it as
  the nearest one, \<open>2 ^ 64\<close>, which is the number written here.
\<close>

definition is_numeric :: "Formats \<Rightarrow> bool" where
  "is_numeric f = (f \<in> {INT_fmt, FLOAT, UINT8, UINT16, UINT32, UINT64})"

definition default_minStep :: "Formats \<Rightarrow> rat option" where
  "default_minStep f = (if f \<in> {INT_fmt, UINT8, UINT16, UINT32, UINT64} then Some 1 else None)"

definition default_minValue :: "Formats \<Rightarrow> rat option" where
  "default_minValue f =
     (if f = INT_fmt then Some (- 2147483648)
      else if f \<in> {UINT8, UINT16, UINT32, UINT64} then Some 0
      else None)"

definition default_maxValue :: "Formats \<Rightarrow> rat option" where
  "default_maxValue f =
     (if f = INT_fmt then Some 2147483647
      else if f = UINT8 then Some 255
      else if f = UINT16 then Some 65535
      else if f = UINT32 then Some 4294967295
      else if f = UINT64 then Some 18446744073709551616
      else None)"

definition override :: "rat option \<Rightarrow> rat option \<Rightarrow> rat option" where
  \<comment> \<open>\<open>if ((p && !isNaN(p)) && (p !== null)) resolved = p\<close>: the number 0 is falsy\<close>
  "override declared resolved =
     (case declared of
        Some p \<Rightarrow> if p \<noteq> 0 then Some p else resolved
      | None \<Rightarrow> resolved)"

definition resolved_maxValue :: "Characteristic \<Rightarrow> Formats \<Rightarrow> rat option" where
  \<comment> \<open>\<open>maxValue_resolved\<close> after the override by \<open>this.props.maxValue\<close>\<close>
  "resolved_maxValue this f = override (maxValue (props this)) (default_maxValue f)"

definition resolved_minValue :: "Characteristic \<Rightarrow> Formats \<Rightarrow> rat option" where
  "resolved_minValue this f = override (minValue (props this)) (default_minValue f)"

definition resolved_minStep :: "Characteristic \<Rightarrow> Formats \<Rightarrow> rat option" where
  "resolved_minStep this f = override (minStep (props this)) (default_minStep f)"

definition number_or_undefined :: "rat option \<Rightarrow> jsvalue" where
  "number_or_undefined r = (case r of Some q \<Rightarrow> JNum (Fin q) | None \<Rightarrow> JUndefined)"

definition stepDecimals :: "rat \<Rightarrow> error + nat" where
  \<comment> \<open>\<open>minStep.toString().split(".")[1].length || 0\<close> unless the step is a whole number;
      reading \<open>length\<close> of \<open>undefined\<close> throws\<close>
  "stepDecimals minStep_resolved =
     (if is_int minStep_resolved then Inr 0
      else (case split_on 46 (Number_toString (Fin minStep_resolved)) of
              _ # digits # _ \<Rightarrow> Inr (length digits)
            | _ \<Rightarrow> Inl TypeError))"

definition quantize :: "rat \<Rightarrow> nat \<Rightarrow> jsvalue \<Rightarrow> jsvalue" where
  \<comment> \<open>the body of the try block: \<open>parseInt\<close> or \<open>parseFloat\<close> of what \<open>toFixed\<close> prints is
      the number printed; decimal.js turns a value that is not finite into NaN and does
      not throw on a number, so the catch branch has no case here. The result is the
      exact multiple of the step: the source reads the double's print and rounds the
      result back to a double, which differs beyond 53 bits\<close>
  "quantize minStep_resolved decimals newValue =
     (case parseFloat newValue of
        Fin x \<Rightarrow>
          (let decimalVal = x;
               decimalDiff = Decimal_mod decimalVal minStep_resolved;
               decimalVal = decimalVal - decimalDiff
           in JNum (Fin (Decimal_toFixed decimalVal decimals)))
      | _ \<Rightarrow> JNum NaN)"

definition Array_includes :: "rat list \<Rightarrow> jsvalue \<Rightarrow> bool" where
  "Array_includes xs v = (case v of JNum (Fin q) \<Rightarrow> q \<in> set xs | _ \<Rightarrow> False)"

definition null_if_undefined :: "jsvalue \<Rightarrow> jsvalue" where
  \<comment> \<open>\<open>newValue == undefined ? null : newValue\<close>\<close>
  "null_if_undefined v = (if is_nullish v then JNull else v)"

definition validate_numeric :: "Characteristic \<Rightarrow> Formats \<Rightarrow> jsvalue \<Rightarrow> error + jsvalue" where
  \<comment> \<open>the block \<open>if (isNumericType)\<close> and the final return\<close>
  "validate_numeric this f newValue =
     (if newValue = JBool False then Inr (JNum (Fin 0))
      else if newValue = JBool True then Inr (JNum (Fin 1))
      else if isNaN (parseInt newValue 10) then Inr (c_value this)
      else
       (let maxValue_resolved = resolved_maxValue this f;
            minValue_resolved = resolved_minValue this f;
            minStep_resolved = resolved_minStep this f;
            newValue = (if js_lt newValue (number_or_undefined minValue_resolved)
                        then number_or_undefined minValue_resolved else newValue);
            newValue = (if js_gt newValue (number_or_undefined maxValue_resolved)
                        then number_or_undefined maxValue_resolved else newValue)
        in case (case minStep_resolved of
                   None \<Rightarrow> Inr newValue
                 | Some st \<Rightarrow>
                     (case stepDecimals st of
                        Inl e \<Rightarrow> Inl e
                      | Inr sd \<Rightarrow> Inr (quantize st sd newValue))) of
             Inl e \<Rightarrow> Inl e
           | Inr newValue \<Rightarrow>
               if (case validValues (props this) of
                     None \<Rightarrow> False
                   | Some vs \<Rightarrow> \<not> Array_includes vs newValue)
               then Inr (c_value this)
               else
                (let newValue =
                   (case validValueRanges (props this) of
                      None \<Rightarrow> newValue
                    | Some (lo, hi) \<Rightarrow>
                        (let newValue = (if js_lt newValue (JNum (Fin lo))
                                         then JNum (Fin lo) else newValue)
                         in if js_gt newValue (JNum (Fin hi)) then JNum (Fin hi) else newValue))
                 in Inr (null_if_undefined newValue))))"

definition validate_string :: "Characteristic \<Rightarrow> jsvalue \<Rightarrow> jsvalue" where
  "validate_string this newValue =
     (let myString = ToString (if truthy newValue then newValue else JStr []);
          maxLength = (case maxLen (props this) of None \<Rightarrow> 64 | Some m \<Rightarrow> m)
      in JStr (if of_nat (length myString) > maxLength
               then take (nat (trunc maxLength)) myString
               else myString))"

definition validateValue :: "Characteristic \<Rightarrow> jsvalue \<Rightarrow> error + jsvalue" where
  "validateValue this newValue =
     (case format (props this) of
        None \<Rightarrow> Inr (null_if_undefined newValue)
      | Some f \<Rightarrow>
         (case f of
            INT_fmt \<Rightarrow> validate_numeric this f newValue
          | FLOAT \<Rightarrow> validate_numeric this f newValue
          | UINT8 \<Rightarrow> validate_numeric this f newValue
          | UINT16 \<Rightarrow> validate_numeric this f newValue
          | UINT32 \<Rightarrow> validate_numeric this f newValue
          | UINT64 \<Rightarrow> validate_numeric this f newValue
          | BOOL \<Rightarrow> Inr (JBool (loose_eq_true newValue))
          | STRING \<Rightarrow> Inr (validate_string this newValue)
          | DATA \<Rightarrow> Inr (null_if_undefined newValue)
          | TLV8 \<Rightarrow> Inr (null_if_undefined newValue)
          | ARRAY \<Rightarrow> Inr (null_if_undefined newValue)
          | DICTIONARY \<Rightarrow> Inr (null_if_undefined newValue)))"

definition getDefaultValue :: "Characteristic \<Rightarrow> jsvalue" where
  "getDefaultValue this =
     (case format (props this) of
        Some BOOL \<Rightarrow> JBool False
      | Some STRING \<Rightarrow> JStr []
      | Some DATA \<Rightarrow> JNull
      | Some TLV8 \<Rightarrow> JNull
      | Some DICTIONARY \<Rightarrow> JEmptyDict
      | Some ARRAY \<Rightarrow> JEmptyArray
      | _ \<Rightarrow> (case minValue (props this) of
                Some m \<Rightarrow> if m \<noteq> 0 then JNum (Fin m) else JNum (Fin 0)
              | None \<Rightarrow> JNum (Fin 0)))"

section \<open>handleGetRequest and handleSetRequest\<close>

text \<open>
  A request that finds a listener emits "get" or "set" and returns a promise that is
  still pending; the listener settles it later through the completion callback. The
  callback is translated as a function of its own, applied to the object state at the
  time it runs; \<open>once\<close> makes every invocation after the first a no-op, so the function
  is the first invocation.
\<close>

datatype 'a promise = Resolve 'a | Reject int | Pending

text \<open>The first argument of a completion callback: \<open>null\<close> or \<open>undefined\<close>, a number, or an Error.\<close>

datatype callback_status = NoStatus | StatusNumber int | StatusError jsstring

definition status_truthy :: "callback_status \<Rightarrow> bool" where
  "status_truthy st = (case st of NoStatus \<Rightarrow> False | StatusNumber n \<Rightarrow> n \<noteq> 0 | StatusError _ \<Rightarrow> True)"

definition numberPattern :: "jsstring \<Rightarrow> bool" where
  \<comment> \<open>\<open>/^-?\d+$/\<close>\<close>
  "numberPattern s =
     (let ds = (case s of c # cs \<Rightarrow> if c = 45 then cs else s | [] \<Rightarrow> [])
      in ds \<noteq> [] \<and> list_all is_digit ds)"

definition extractHAPStatusFromError :: "Status \<Rightarrow> jsstring \<Rightarrow> int" where
  \<comment> \<open>the argument is the Error's message\<close>
  "extractHAPStatusFromError S message =
     (if numberPattern message then
        (case parseInt_str message 0 of
           Fin v \<Rightarrow>
             if of_int (INSUFFICIENT_PRIVILEGES S) \<le> v \<and> v \<le> of_int (NOT_ALLOWED_IN_CURRENT_STATE S)
             then \<lfloor>v\<rfloor> else SERVICE_COMMUNICATION_FAILURE S
         | _ \<Rightarrow> SERVICE_COMMUNICATION_FAILURE S)
      else SERVICE_COMMUNICATION_FAILURE S)"

definition status_of :: "Status \<Rightarrow> callback_status \<Rightarrow> int" where
  \<comment> \<open>\<open>typeof status === "number" ? status : extractHAPStatusFromError(status)\<close>\<close>
  "status_of S st = (case st of
       StatusNumber n \<Rightarrow> n
     | StatusError message \<Rightarrow> extractHAPStatusFromError S message
     | NoStatus \<Rightarrow> SERVICE_COMMUNICATION_FAILURE S)"

definition handleGetRequest :: "Status \<Rightarrow> Characteristic \<Rightarrow> jsvalue promise \<times> event list" where
  \<comment> \<open>the promise returned and the events emitted; the object is not changed\<close>
  "handleGetRequest S this =
     (if PAIRED_READ \<notin> set (perms (props this)) then (Reject (WRITE_ONLY_CHARACTERISTIC S), [])
      else if eventOnlyCharacteristic this then (Resolve JNull, [])
      else if get_listeners this = 0 then
        (if status this \<noteq> 0 then Reject (status this) else Resolve (c_value this), [])
      else (Pending, [EvGet]))"

definition handleGetRequest_callback ::
  "Status \<Rightarrow> Characteristic \<Rightarrow> callback_status \<Rightarrow> jsvalue
     \<Rightarrow> Characteristic \<times> (error + jsvalue promise) \<times> event list" where
  "handleGetRequest_callback S this st v =
     (if status_truthy st then
        (this\<lparr>status := status_of S st\<rparr>, Inr (Reject (status_of S st)), [])
      else
        (let this = this\<lparr>status := SUCCESS S\<rparr> in
         case validateValue this v of
           Inl e \<Rightarrow> (this, Inl e, [])
         | Inr v \<Rightarrow>
             (let v = (if is_nullish v then getDefaultValue this else v);
                  oldValue = c_value this
              in (this\<lparr>c_value := v\<rparr>, Inr (Resolve v),
                  if \<not> strict_eq oldValue v then [EvChange oldValue v] else []))))"

definition handleSetRequest ::
  "Status \<Rightarrow> Characteristic \<Rightarrow> jsvalue
     \<Rightarrow> Characteristic \<times> (error + jsvalue option promise) \<times> event list" where
  \<comment> \<open>the object after the call, the promise returned (or the error thrown) and the
      events emitted; \<open>Resolve None\<close> is \<open>Promise.resolve()\<close>\<close>
  "handleSetRequest S this v =
     (let this = this\<lparr>status := SUCCESS S\<rparr> in
      case validateValue this v of
        Inl e \<Rightarrow> (this, Inl e, [])
      | Inr v \<Rightarrow>
          (let oldValue = c_value this in
           if set_listeners this = 0 then
             (this\<lparr>c_value := v\<rparr>, Inr (Resolve None),
              if eventOnlyCharacteristic this \<or> \<not> strict_eq oldValue v
              then [EvChange oldValue v] else [])
           else (this, Inr Pending, [EvSet v])))"

definition handleSetRequest_callback ::
  "Status \<Rightarrow> Characteristic \<Rightarrow> jsvalue \<Rightarrow> jsvalue \<Rightarrow> callback_status \<Rightarrow> jsvalue
     \<Rightarrow> Characteristic \<times> jsvalue option promise \<times> event list" where
  \<comment> \<open>\<open>oldValue\<close> and \<open>v\<close> are the variables the closure captured: the cached value when
      the request came in and the coerced value that was emitted\<close>
  "handleSetRequest_callback S this oldValue v st writeResponse =
     (if status_truthy st then
        (this\<lparr>status := status_of S st\<rparr>, Reject (status_of S st), [])
      else
        (let this = this\<lparr>status := SUCCESS S\<rparr>;
             change = (if eventOnlyCharacteristic this \<or> \<not> strict_eq oldValue v
                       then [EvChange oldValue v] else [])
         in if \<not> is_nullish writeResponse \<and> WRITE_RESPONSE \<in> set (perms (props this))
            then (this\<lparr>c_value := writeResponse\<rparr>, Resolve (Some writeResponse), change)
            else (this\<lparr>c_value := v\<rparr>, Resolve None, change)))"

section \<open>toHAP\<close>

subsection \<open>Buffer: UTF-8\<close>

definition encode_code_point :: "nat \<Rightarrow> nat list" where
  "encode_code_point cp =
     (if cp < 128 then [cp]
      else if cp < 2048 then [192 + cp div 64, 128 + cp mod 64]
      else if cp < 65536 then [224 + cp div 4096, 128 + (cp div 64) mod 64, 128 + cp mod 64]
      else [240 + cp div 262144, 128 + (cp div 4096) mod 64, 128 + (cp div 64) mod 64,
            128 + cp mod 64])"

definition is_high_surrogate :: "nat \<Rightarrow> bool" where
  "is_high_surrogate c = (55296 \<le> c \<and> c \<le> 56319)"

definition is_low_surrogate :: "nat \<Rightarrow> bool" where
  "is_low_surrogate c = (56320 \<le> c \<and> c \<le> 57343)"

fun utf8_encode :: "jsstring \<Rightarrow> nat list" where
  \<comment> \<open>\<open>Buffer.from(str, 'utf8')\<close>: a surrogate pair is one code point, a lone surrogate
      is written as U+FFFD\<close>
  "utf8_encode [] = []"
| "utf8_encode [c] =
     encode_code_point (if is_high_surrogate c \<or> is_low_surrogate c then 65533 else c)"
| "utf8_encode (c # d # cs) =
     (if is_high_surrogate c \<and> is_low_surrogate d
      then encode_code_point (65536 + (c - 55296) * 1024 + (d - 56320)) @ utf8_encode cs
      else encode_code_point (if is_high_surrogate c \<or> is_low_surrogate c then 65533 else c)
             @ utf8_encode (d # cs))"

definition is_cont :: "nat \<Rightarrow> bool" where
  "is_cont b = (128 \<le> b \<and> b \<le> 191)"

definition code_units :: "nat \<Rightarrow> jsstring" where
  "code_units cp =
     (if cp < 65536 then [cp]
      else [55296 + (cp - 65536) div 1024, 56320 + (cp - 65536) mod 1024])"

fun utf8_decode :: "nat list \<Rightarrow> jsstring" where
  \<comment> \<open>\<open>buf.toString('utf8')\<close>: every ill-formed or truncated sequence becomes U+FFFD\<close>
  "utf8_decode [] = []"
| "utf8_decode (b # bs) =
     (if b < 128 then b # utf8_decode bs
      else if 194 \<le> b \<and> b \<le> 223 then
        (case bs of
           [] \<Rightarrow> [65533]
         | b1 # r1 \<Rightarrow>
             if is_cont b1 then ((b - 192) * 64 + (b1 - 128)) # utf8_decode r1
             else 65533 # utf8_decode bs)
      else if 224 \<le> b \<and> b \<le> 239 then
        (case bs of
           [] \<Rightarrow> [65533]
         | b1 # r1 \<Rightarrow>
             if (if b = 224 then 160 else 128) \<le> b1 \<and> b1 \<le> (if b = 237 then 159 else 191) then
               (case r1 of
                  [] \<Rightarrow> [65533]
                | b2 # r2 \<Rightarrow>
                    if is_cont b2
                    then ((b - 224) * 4096 + (b1 - 128) * 64 + (b2 - 128)) # utf8_decode r2
                    else 65533 # utf8_decode r1)
             else 65533 # utf8_decode bs)
      else if 240 \<le> b \<and> b \<le> 244 then
        (case bs of
           [] \<Rightarrow> [65533]
         | b1 # r1 \<Rightarrow>
             if (if b = 240 then 144 else 128) \<le> b1 \<and> b1 \<le> (if b = 244 then 143 else 191) then
               (case r1 of
                  [] \<Rightarrow> [65533]
                | b2 # r2 \<Rightarrow>
                    if is_cont b2 then
                      (case r2 of
                         [] \<Rightarrow> [65533]
                       | b3 # r3 \<Rightarrow>
                           if is_cont b3
                           then code_units ((b - 240) * 262144 + (b1 - 128) * 4096
                                              + (b2 - 128) * 64 + (b3 - 128)) @ utf8_decode r3
                           else 65533 # utf8_decode r2)
                    else 65533 # utf8_decode r1)
             else 65533 # utf8_decode bs)
      else 65533 # utf8_decode bs)"

definition Buffer_from :: "jsvalue \<Rightarrow> error + nat list" where
  \<comment> \<open>\<open>Buffer.from(value, 'utf8')\<close>: the bytes of a string or of an array, a TypeError
      for anything else\<close>
  "Buffer_from v = (case v of
       JStr s \<Rightarrow> Inr (utf8_encode s)
     | JEmptyArray \<Rightarrow> Inr []
     | _ \<Rightarrow> Inl TypeError)"

subsection \<open>The wire record\<close>

definition decimalPlaces :: "rat \<Rightarrow> nat" where
  \<comment> \<open>the match of \<open>/(?:\.(\d+))?(?:[eE]([+-]?\d+))?$/\<close> on the number's string: the
      digits after the point, less the exponent\<close>
  "decimalPlaces num =
     (let str = Number_toString (Fin num);
          mantissa = takeWhile (\<lambda>c. c \<noteq> 101) str;
          exponent = drop (length mantissa + 1) str;
          digits = (case split_on 46 mantissa of _ # ds # _ \<Rightarrow> int (length ds) | _ \<Rightarrow> 0);
          e = (if exponent = [] then 0
               else (let (sg, ds) = strip_sign exponent in sg * int (radix_val 10 ds)))
      in nat (max 0 (digits - e)))"

record HapCharacteristic =
  hap_iid :: "nat option"
  hap_type :: jsstring
  hap_perms :: "Perms list"
  hap_format :: "Formats option"
  hap_value :: "jsvalue option"  \<comment> \<open>\<open>None\<close>: the record has no key "value"\<close>
  hap_description :: jsstring
  hap_valid_values :: "rat list option"
  hap_valid_values_range :: "(rat \<times> rat) option"
  hap_unit :: "Units option"
  hap_maxValue :: "rat option"
  hap_minValue :: "rat option"
  hap_minStep :: "rat option"
  hap_maxLen :: "nat option"

record ToHAPOptions =
  omitValues :: bool

definition toHAP_number :: "CharacteristicProps \<Rightarrow> jsvalue \<Rightarrow> jsvalue" where
  \<comment> \<open>the chain of \<open>if (this.props.format === ...)\<close>; \<open>Math.round(value * pow) / pow\<close> is
      exact here and double arithmetic in the source, which can differ in the last place\<close>
  "toHAP_number p v =
     (case format p of
        None \<Rightarrow> v
      | Some f \<Rightarrow>
          if f \<in> {INT_fmt, UINT8, UINT16, UINT32, UINT64} then JNum (parseInt v 0)
          else if f = FLOAT then
            (let x = parseFloat v in
             case minStep p of
               None \<Rightarrow> JNum x
             | Some st \<Rightarrow>
                 (let pow = 10 ^ decimalPlaces st in
                  case Math_round (case x of Fin q \<Rightarrow> Fin (q * pow) | _ \<Rightarrow> x) of
                    Fin q \<Rightarrow> JNum (Fin (q / pow))
                  | y \<Rightarrow> JNum y))
          else v)"

definition toHAP ::
  "(jsstring \<Rightarrow> jsstring) \<Rightarrow> Characteristic \<Rightarrow> ToHAPOptions option \<Rightarrow> error + HapCharacteristic" where
  \<comment> \<open>the first argument is \<open>toShortForm(_, HomeKitTypes.BASE_UUID)\<close> of \<open>./util/uuid\<close>,
      which is not among the sources\<close>
  "toHAP toShortForm this opt =
     (let p = props this;
          v = c_value this;
          v = (case minValue p of
                 Some lo \<Rightarrow> if js_lt v (JNum (Fin lo)) then JNum (Fin lo) else v
               | None \<Rightarrow> v);
          v = (case maxValue p of
                 Some hi \<Rightarrow> if js_gt v (JNum (Fin hi)) then JNum (Fin hi) else v
               | None \<Rightarrow> v);
          v = toHAP_number p v;
          v = (if eventOnlyCharacteristic this then JNull else v);
          hap = \<lparr> hap_iid = iid this,
                  hap_type = toShortForm (UUID this),
                  hap_perms = perms p,
                  hap_format = format p,
                  hap_value = Some v,
                  hap_description = displayName this,
                  hap_valid_values = (case validValues p of
                                        Some vs \<Rightarrow> if length vs > 0 then Some vs else None
                                      | None \<Rightarrow> None),
                  hap_valid_values_range = validValueRanges p,
                  hap_unit = unit p,
                  hap_maxValue = maxValue p,
                  hap_minValue = minValue p,
                  hap_minStep = minStep p,
                  hap_maxLen = None \<rparr>
      in case (if format p = Some STRING then
                 (case Buffer_from v of
                    Inl e \<Rightarrow> Inl e
                  | Inr str \<Rightarrow>
                      (let len = length str in
                       if len > 256
                       then Inr (hap\<lparr>hap_value := Some (JStr (utf8_decode (take 256 str))),
                                     hap_maxLen := Some 256\<rparr>)
                       else if len > 64 then Inr (hap\<lparr>hap_maxLen := Some len\<rparr>)
                       else Inr hap))
               else Inr hap) of
           Inl e \<Rightarrow> Inl e
         | Inr hap \<Rightarrow>
             (let hap = (if PAIRED_READ \<notin> set (perms p) then hap\<lparr>hap_value := None\<rparr> else hap);
                  hap = (case opt of
                           Some options \<Rightarrow> if omitValues options then hap\<lparr>hap_value := None\<rparr> else hap
                         | None \<Rightarrow> hap)
              in Inr hap))"

section \<open>serialize and deserialize\<close>

record SerializedCharacteristic =
  ser_displayName :: jsstring
  ser_UUID :: jsstring
  ser_props :: CharacteristicProps
  ser_value :: jsvalue
  ser_eventOnlyCharacteristic :: bool

definition clone :: "CharacteristicProps \<Rightarrow> CharacteristicProps" where
  \<comment> \<open>Modelled from the spec: \<open>clone({}, props)\<close> of \<open>./util/clone\<close>, which is not among
      the sources. The serialized form carries the constraints, so the copy has the
      fields of the original.\<close>
  "clone p = p"

definition serialize :: "Characteristic \<Rightarrow> SerializedCharacteristic" where
  "serialize characteristic =
     \<lparr> ser_displayName = displayName characteristic,
       ser_UUID = UUID characteristic,
       ser_props = clone (props characteristic),
       ser_value = c_value characteristic,
       ser_eventOnlyCharacteristic = eventOnlyCharacteristic characteristic \<rparr>"

definition deserialize :: "Status \<Rightarrow> SerializedCharacteristic \<Rightarrow> error + Characteristic" where
  "deserialize S json =
     (case new_Characteristic S (ser_displayName json) (ser_UUID json) (Some (ser_props json)) of
        Inl e \<Rightarrow> Inl e
      | Inr characteristic \<Rightarrow>
          Inr (characteristic\<lparr>c_value := ser_value json,
                 eventOnlyCharacteristic := ser_eventOnlyCharacteristic json\<rparr>))"

section \<open>Call sequences and example objects\<close>

datatype subscription_call = Subscribe | Unsubscribe

fun run_calls :: "Characteristic \<Rightarrow> subscription_call list \<Rightarrow> Characteristic \<times> event list" where
  \<comment> \<open>the calls made one after the other, with the events in the order emitted\<close>
  "run_calls this [] = (this, [])"
| "run_calls this (call # calls) =
     (let (this, evs) = (case call of Subscribe \<Rightarrow> subscribe this | Unsubscribe \<Rightarrow> unsubscribe this);
          (this, evs') = run_calls this calls
      in (this, evs @ evs'))"

definition hap_status :: Status where
  \<comment> \<open>the status codes of the HomeKit Accessory Protocol\<close>
  "hap_status =
     \<lparr> SUCCESS = 0, WRITE_ONLY_CHARACTERISTIC = - 70405,
       SERVICE_COMMUNICATION_FAILURE = - 70402, INSUFFICIENT_PRIVILEGES = - 70401,
       NOT_ALLOWED_IN_CURRENT_STATE = - 70412 \<rparr>"

definition example_props :: "Formats \<Rightarrow> rat option \<Rightarrow> rat option \<Rightarrow> CharacteristicProps" where
  "example_props f lo hi =
     default_props\<lparr>format := Some f, perms := [PAIRED_READ, PAIRED_WRITE],
                   minValue := lo, maxValue := hi\<rparr>"

definition example :: "CharacteristicProps \<Rightarrow> jsvalue \<Rightarrow> Characteristic" where
  \<comment> \<open>an object with the given constraints and cached value, otherwise as constructed\<close>
  "example p v =
     \<lparr> displayName = js ''Example'', UUID = js ''0000'', iid = None, c_value = v,
       status = 0, eventOnlyCharacteristic = False, props = p, subscriptions = 0,
       get_listeners = 0, set_listeners = 0 \<rparr>"


definition clamped :: "rat option \<Rightarrow> rat option \<Rightarrow> rat \<Rightarrow> rat" where
  \<comment> \<open>what the two comparisons of \<open>validateValue\<close> leave of a number\<close>
  "clamped lo hi q =
     (let v = (case lo of Some a \<Rightarrow> if q < a then a else q | None \<Rightarrow> q)
      in case hi of Some b \<Rightarrow> if b < v then b else v | None \<Rightarrow> v)"




section \<open>Configuration: setProps\<close>

text \<open>
  C2. When the constraints that \<open>setProps\<close> has merged hold a \<open>minValue\<close> above the
  \<open>maxValue\<close>, the call throws an Error whose message names the characteristic and the
  two bounds, and in the object it leaves behind both bounds are unset. Setting
  \<open>minValue = 10\<close>, \<open>maxValue = 5\<close> is the witness.
\<close>

theorem setProps_min_above_max:
  assumes "minValue (assign_props (props this) u) = Some lo"
    and "maxValue (assign_props (props this) u) = Some hi"
    and "lo > hi"
  shows "\<exists>this'. setProps this u = (this', Some (Error (setProps_message (displayName this))))
           \<and> minValue (props this') = None \<and> maxValue (props this') = None"
  using assms by (simp add: setProps_def)

theorem setProps_min_above_max_witness:
  "minValue (assign_props (props (example default_props JNull))
      (no_props\<lparr>set_minValue := Some (Some 10), set_maxValue := Some (Some 5)\<rparr>)) = Some 10
   \<and> maxValue (assign_props (props (example default_props JNull))
      (no_props\<lparr>set_minValue := Some (Some 10), set_maxValue := Some (Some 5)\<rparr>)) = Some 5
   \<and> (10 :: rat) > 5
   \<and> (\<exists>this'. setProps (example default_props JNull)
             (no_props\<lparr>set_minValue := Some (Some 10), set_maxValue := Some (Some 5)\<rparr>)
           = (this', Some (Error (setProps_message (js ''Example''))))
         \<and> minValue (props this') = None \<and> maxValue (props this') = None)"
  using setProps_min_above_max [of "example default_props JNull"
      "no_props\<lparr>set_minValue := Some (Some 10), set_maxValue := Some (Some 5)\<rparr>" 10 5]
  by (simp add: assign_props_def no_props_def example_def)

section \<open>Subscriptions\<close>

lemma run_calls_nonneg:
  "0 \<le> subscriptions this \<Longrightarrow> 0 \<le> subscriptions (fst (run_calls this calls))"
proof (induction calls arbitrary: this)
  case Nil
  then show ?case by simp
next
  case (Cons call calls)
  have step: "0 \<le> subscriptions (fst (case call of Subscribe \<Rightarrow> subscribe this
                                       | Unsubscribe \<Rightarrow> unsubscribe this))"
    using Cons.prems by (cases call) (simp_all add: subscribe_def unsubscribe_def)
  from Cons.IH [OF step] show ?case
    by (simp add: case_prod_unfold Let_def)
qed

text \<open>
  C4. Start from a subscriber count of 0 and make any sequence of \<open>subscribe\<close> and
  \<open>unsubscribe\<close> calls. The count reached is never negative. The next \<open>subscribe\<close> adds
  one and emits "subscribe" exactly when the count was 0; the next \<open>unsubscribe\<close> emits
  "unsubscribe" exactly when the count was 1, and leaves a count of 0 at 0 without
  emitting. The calls subscribe, subscribe, unsubscribe, unsubscribe emit each event
  once; subscribe, unsubscribe, subscribe emit "subscribe", "unsubscribe", "subscribe".
\<close>

theorem subscription_edges:
  assumes "subscriptions this = 0"
  shows "(let this' = fst (run_calls this calls) in
            0 \<le> subscriptions this'
          \<and> snd (subscribe this') = (if subscriptions this' = 0 then [EvSubscribe] else [])
          \<and> subscriptions (fst (subscribe this')) = subscriptions this' + 1
          \<and> snd (unsubscribe this') = (if subscriptions this' = 1 then [EvUnsubscribe] else [])
          \<and> subscriptions (fst (unsubscribe this'))
               = (if subscriptions this' = 0 then 0 else subscriptions this' - 1))
       \<and> snd (run_calls this [Subscribe, Subscribe, Unsubscribe, Unsubscribe])
            = [EvSubscribe, EvUnsubscribe]
       \<and> snd (run_calls this [Subscribe, Unsubscribe, Subscribe])
            = [EvSubscribe, EvUnsubscribe, EvSubscribe]"
proof -
  have "0 \<le> subscriptions (fst (run_calls this calls))"
    using assms by (simp add: run_calls_nonneg)
  then show ?thesis
    using assms by (simp add: Let_def subscribe_def unsubscribe_def max_def)
qed

theorem subscription_edges_witness:
  "subscriptions (example default_props JNull) = 0
   \<and> subscriptions (fst (run_calls (example default_props JNull)
                           [Unsubscribe, Subscribe, Subscribe])) = 2
   \<and> snd (unsubscribe (example default_props JNull)) = []
   \<and> subscriptions (fst (unsubscribe (example default_props JNull))) = 0
   \<and> snd (run_calls (example default_props JNull) [Subscribe, Subscribe, Unsubscribe, Unsubscribe])
        = [EvSubscribe, EvUnsubscribe]
   \<and> snd (run_calls (example default_props JNull) [Subscribe, Unsubscribe, Subscribe])
        = [EvSubscribe, EvUnsubscribe, EvSubscribe]"
  using subscription_edges [of "example default_props JNull" "[]"]
  by (simp add: example_def subscribe_def unsubscribe_def)

section \<open>Requests\<close>

text \<open>
  C5. A characteristic that may be read, is not event-only and has no "get" listener
  answers \<open>handleGetRequest\<close> from its cache: the promise resolves with the cached value
  when the recorded status is success and rejects with the recorded status otherwise, and
  nothing is emitted. The source tests the status for truthiness, so the statement takes
  \<open>Status.SUCCESS\<close> to be 0, its value in the protocol.
\<close>

theorem handleGetRequest_no_listener:
  assumes "PAIRED_READ \<in> set (perms (props this))"
    and "\<not> eventOnlyCharacteristic this"
    and "get_listeners this = 0"
    and "SUCCESS S = 0"
  shows "handleGetRequest S this
           = (if status this = SUCCESS S then Resolve (c_value this) else Reject (status this), [])"
  using assms by (simp add: handleGetRequest_def)

theorem handleGetRequest_no_listener_witness:
  "PAIRED_READ \<in> set (perms (props (example (example_props UINT8 None None) (JNum (Fin 7)))))
   \<and> SUCCESS hap_status = 0
   \<and> handleGetRequest hap_status (example (example_props UINT8 None None) (JNum (Fin 7)))
       = (Resolve (JNum (Fin 7)), [])
   \<and> handleGetRequest hap_status
         ((example (example_props UINT8 None None) (JNum (Fin 7)))\<lparr>status := - 70402\<rparr>)
       = (Reject (- 70402), [])"
  using handleGetRequest_no_listener
          [of "example (example_props UINT8 None None) (JNum (Fin 7))" hap_status]
        handleGetRequest_no_listener
          [of "(example (example_props UINT8 None None) (JNum (Fin 7)))\<lparr>status := - 70402\<rparr>"
              hap_status]
  by (simp add: example_def example_props_def hap_status_def default_props_def)

text \<open>
  C6. Let \<open>handleSetRequest\<close> coerce its argument to \<open>v'\<close>. With no "set" listener the
  value is stored at once and the promise resolves without payload; the events emitted
  are one "change" if the characteristic is event-only or \<open>v'\<close> is not \<open>===\<close> to the value
  cached before, and none otherwise. With a listener the request emits "set" alone and
  stays pending. The completion callback, when the listener reports no error, stores the
  value (or the write response) and emits under the same condition, one "change" or
  none; when the listener reports an error it records the status, rejects, stores nothing
  and emits nothing. So a set to the cached value raises no "change" on a characteristic
  that is not event-only and exactly one on an event-only characteristic.
\<close>

theorem handleSetRequest_change_condition:
  assumes "validateValue (this\<lparr>status := SUCCESS S\<rparr>) v = Inr v'"
  shows "(set_listeners this = 0 \<longrightarrow>
            handleSetRequest S this v
              = (this\<lparr>status := SUCCESS S, c_value := v'\<rparr>, Inr (Resolve None),
                 if eventOnlyCharacteristic this \<or> \<not> strict_eq (c_value this) v'
                 then [EvChange (c_value this) v'] else []))
       \<and> (set_listeners this \<noteq> 0 \<longrightarrow>
            handleSetRequest S this v = (this\<lparr>status := SUCCESS S\<rparr>, Inr Pending, [EvSet v']))
       \<and> (\<forall>later st writeResponse.
            handleSetRequest_callback S later (c_value this) v' st writeResponse
              = (if status_truthy st
                 then (later\<lparr>status := status_of S st\<rparr>, Reject (status_of S st), [])
                 else (later\<lparr>status := SUCCESS S,
                             c_value := (if \<not> is_nullish writeResponse
                                            \<and> WRITE_RESPONSE \<in> set (perms (props later))
                                         then writeResponse else v')\<rparr>,
                       if \<not> is_nullish writeResponse \<and> WRITE_RESPONSE \<in> set (perms (props later))
                       then Resolve (Some writeResponse) else Resolve None,
                       if eventOnlyCharacteristic later \<or> \<not> strict_eq (c_value this) v'
                       then [EvChange (c_value this) v'] else [])))"
  using assms by (simp add: handleSetRequest_def handleSetRequest_callback_def Let_def)

theorem handleSetRequest_change_condition_witness:
  "validateValue ((example (example_props BOOL None None) (JBool True))\<lparr>status := SUCCESS hap_status\<rparr>)
      (JNum (Fin 1)) = Inr (JBool True)
   \<and> snd (snd (handleSetRequest hap_status (example (example_props BOOL None None) (JBool True))
                 (JNum (Fin 1)))) = []
   \<and> snd (snd (handleSetRequest hap_status
                 ((example (example_props BOOL None None) (JBool True))
                    \<lparr>eventOnlyCharacteristic := True\<rparr>)
                 (JNum (Fin 1)))) = [EvChange (JBool True) (JBool True)]
   \<and> handleSetRequest hap_status (example (example_props BOOL None None) (JBool False))
        (JNum (Fin 1))
       = ((example (example_props BOOL None None) (JBool True)), Inr (Resolve None),
          [EvChange (JBool False) (JBool True)])
   \<and> handleSetRequest hap_status
        ((example (example_props BOOL None None) (JBool False))\<lparr>set_listeners := 1\<rparr>)
        (JNum (Fin 1))
       = ((example (example_props BOOL None None) (JBool False))\<lparr>set_listeners := 1\<rparr>,
          Inr Pending, [EvSet (JBool True)])
   \<and> handleSetRequest_callback hap_status
        ((example (example_props BOOL None None) (JBool False))\<lparr>set_listeners := 1\<rparr>)
        (JBool False) (JBool True) NoStatus JUndefined
       = ((example (example_props BOOL None None) (JBool True))\<lparr>set_listeners := 1\<rparr>,
          Resolve None, [EvChange (JBool False) (JBool True)])
   \<and> handleSetRequest_callback hap_status
        ((example (example_props BOOL None None) (JBool False))\<lparr>set_listeners := 1\<rparr>)
        (JBool False) (JBool True) (StatusNumber (- 70402)) JUndefined
       = ((example (example_props BOOL None None) (JBool False))
            \<lparr>status := - 70402, set_listeners := 1\<rparr>,
          Reject (- 70402), [])"
proof -
  let ?c = "example (example_props BOOL None None) (JBool True)"
  let ?d = "example (example_props BOOL None None) (JBool False)"
  have v: "validateValue (c\<lparr>status := SUCCESS hap_status\<rparr>) (JNum (Fin 1)) = Inr (JBool True)"
    if "format (props c) = Some BOOL" for c
    using that by (simp add: validateValue_def loose_eq_true_def ToNumber_def)
  have f: "format (props ?c) = Some BOOL" "format (props ?d) = Some BOOL"
    by (simp_all add: example_def example_props_def default_props_def)
  show ?thesis
    using handleSetRequest_change_condition
        [where this = ?c and S = hap_status and v = "JNum (Fin 1)" and v' = "JBool True"]
      handleSetRequest_change_condition
        [where this = "?c\<lparr>eventOnlyCharacteristic := True\<rparr>" and S = hap_status
           and v = "JNum (Fin 1)" and v' = "JBool True"]
      handleSetRequest_change_condition
        [where this = ?d and S = hap_status and v = "JNum (Fin 1)" and v' = "JBool True"]
      handleSetRequest_change_condition
        [where this = "?d\<lparr>set_listeners := 1\<rparr>" and S = hap_status
           and v = "JNum (Fin 1)" and v' = "JBool True"]
    by (simp add: v f)
      (simp add: example_def status_truthy_def status_of_def hap_status_def is_nullish_def)
qed

section \<open>Coercion: validateValue\<close>

subsection \<open>Numbers as they print and parse\<close>

lemma parseInt_5: "parseInt (JNum (Fin 5)) 10 = Fin 5"
  by (simp add: parseInt_def ToString_def Number_toString_def num_parts_def frac_places.simps
      nat_digits.simps is_int_def parseInt_str_def strip_sign_def is_ws_def starts_with_def
      is_radix_digit_def digit_val_def radix_val_def)


lemma StringToNumber_empty: "StringToNumber [] = Fin 0"
  by (simp add: StringToNumber_def trim_def)

lemma js_lt_numbers:
  "js_lt (JNum (Fin a)) (JNum (Fin b)) = (a < b)" "js_lt (JNum (Fin a)) JUndefined = False"
  by (simp_all add: js_lt_def ToNumber_def)

lemma js_gt_numbers:
  "js_gt (JNum (Fin a)) (JNum (Fin b)) = (b < a)" "js_gt (JNum (Fin a)) JUndefined = False"
  by (simp_all add: js_gt_def ToNumber_def)












subsection \<open>Quantization\<close>












subsection \<open>The numeric branch on a number\<close>

lemma validateValue_numeric:
  "format (props this) = Some f \<Longrightarrow> is_numeric f \<Longrightarrow> validateValue this v = validate_numeric this f v"
  by (cases f) (simp_all add: validateValue_def is_numeric_def)



lemma validate_numeric_number:
  assumes "validValues (props this) = None" and "validValueRanges (props this) = None"
    and "\<not> isNaN (parseInt (JNum (Fin q)) 10)"
  shows "validate_numeric this f (JNum (Fin q)) =
     (let v = clamped (resolved_minValue this f) (resolved_maxValue this f) q
      in case resolved_minStep this f of
           None \<Rightarrow> Inr (JNum (Fin v))
         | Some s \<Rightarrow>
            (case stepDecimals s of
               Inl e \<Rightarrow> Inl e
             | Inr d \<Rightarrow> Inr (JNum (Fin (Decimal_toFixed (v - Decimal_mod v s) d)))))"
  using assms
  by (cases "resolved_minValue this f"; cases "resolved_maxValue this f")
    (auto simp add: validate_numeric_def Let_def js_lt_numbers js_gt_numbers clamped_def
      quantize_def parseFloat_def null_if_undefined_def is_nullish_def number_or_undefined_def
      split: option.splits sum.splits)






subsection \<open>C1: the range of a coerced number\<close>





lemma floor_half: "\<lfloor>1 / 2 :: rat\<rfloor> = 0"
  by (simp add: floor_eq_iff)

lemma parseInt_1: "parseInt (JNum (Fin 1)) 10 = Fin 1"
  by (simp add: parseInt_def ToString_def Number_toString_def num_parts_def frac_places.simps
      nat_digits.simps is_int_def parseInt_str_def strip_sign_def is_ws_def starts_with_def
      is_radix_digit_def digit_val_def radix_val_def)

text \<open>
  Outside these conditions the result can leave the bounds: quantization takes the
  minimum 1 down to 0 when the step is 2, and a string that only starts with digits is
  neither clamped nor rejected.
\<close>

lemma validateValue_quantized_below_min:
  "validateValue (example ((example_props UINT8 (Some 1) None)\<lparr>minStep := Some 2\<rparr>) JNull) (JNum (Fin 1))
     = Inr (JNum (Fin 0))"
proof -
  let ?c = "example ((example_props UINT8 (Some 1) None)\<lparr>minStep := Some 2\<rparr>) JNull"
  have r: "resolved_minValue ?c UINT8 = Some 1" "resolved_maxValue ?c UINT8 = Some 255"
    "resolved_minStep ?c UINT8 = Some 2"
    by (simp_all add: resolved_minValue_def resolved_maxValue_def resolved_minStep_def
        override_def example_def example_props_def default_props_def default_maxValue_def)
  have f: "format (props ?c) = Some UINT8" "validValues (props ?c) = None"
    "validValueRanges (props ?c) = None"
    by (simp_all add: example_def example_props_def default_props_def)
  have "validate_numeric ?c UINT8 (JNum (Fin 1)) = Inr (JNum (Fin 0))"
    using f(2,3)
    by (subst validate_numeric_number)
      (simp_all add: parseInt_1 isNaN_def r clamped_def stepDecimals_def is_int_def
        Decimal_mod_def Decimal_toFixed_def trunc_def Let_def floor_half)
  then show ?thesis
    using validateValue_numeric [OF f(1)] by (simp add: is_numeric_def)
qed

lemma validateValue_string_not_clamped:
  "validateValue (example (example_props UINT8 None None) JNull) (JStr (js ''300abc''))
     = Inr (JNum (Fin 300))"
  by (simp add: validateValue_def validate_numeric_def example_def example_props_def
      default_props_def resolved_minValue_def resolved_maxValue_def resolved_minStep_def
      override_def default_minValue_def default_maxValue_def default_minStep_def
      parseInt_def ToString_def parseInt_str_def strip_sign_def is_ws_def starts_with_def
      is_radix_digit_def digit_val_def radix_val_def isNaN_def number_or_undefined_def
      js_lt_def js_gt_def ToNumber_def StringToNumber_def trim_def scan_decimal_def
      scan_exponent_def is_digit_def stepDecimals_def is_int_def quantize_def parseFloat_def
      parseFloat_str_def pow10_def Decimal_mod_def Decimal_toFixed_def trunc_def
      Array_includes_def null_if_undefined_def is_nullish_def floor_half)

subsection \<open>C3: the boolean format\<close>

text \<open>
  C3 as stated fails if "truthy-equivalent" is what JavaScript calls truthy: the number 2
  is truthy, and a boolean characteristic coerces it to \<open>false\<close>.
\<close>

theorem validateValue_bool_truthy_to_false:
  "truthy (JNum (Fin 2))
   \<and> validateValue (example (example_props BOOL None None) JNull) (JNum (Fin 2)) = Inr (JBool False)"
  by (simp add: truthy_def validateValue_def loose_eq_true_def ToNumber_def example_def
      example_props_def default_props_def)

text \<open>
  C3, amended. For the boolean format \<open>validateValue\<close> returns \<open>true\<close> exactly for the
  inputs that are loosely equal to \<open>true\<close> (\<open>v == true\<close>: neither \<open>null\<close> nor \<open>undefined\<close>,
  and 1 when read as a number) and \<open>false\<close> for every other input. Those inputs are all
  truthy, but not every truthy input is among them. The call never throws and the result
  does not depend on the cached value.
\<close>

theorem validateValue_bool_loose_equality:
  assumes "format (props this) = Some BOOL"
  shows "validateValue this v = Inr (JBool (loose_eq_true v))
       \<and> loose_eq_true v = (v \<noteq> JUndefined \<and> v \<noteq> JNull \<and> ToNumber v = Fin 1)
       \<and> (loose_eq_true v \<longrightarrow> truthy v)"
  using assms
  by (cases v) (auto simp add: validateValue_def loose_eq_true_def truthy_def ToNumber_def
      StringToNumber_empty split: if_splits)

theorem validateValue_bool_loose_equality_witness:
  "format (props (example (example_props BOOL None None) (JBool False))) = Some BOOL
   \<and> validateValue (example (example_props BOOL None None) (JBool False)) (JNum (Fin 1))
       = Inr (JBool True)
   \<and> truthy (JNum (Fin 1))"
  using validateValue_bool_loose_equality
          [of "example (example_props BOOL None None) (JBool False)" "JNum (Fin 1)"]
  by (simp add: example_def example_props_def default_props_def loose_eq_true_def ToNumber_def)

subsection \<open>C10: a constraint of 0\<close>

lemma override_zero: "override (Some 0) d = override None d"
  by (simp add: override_def)

lemma validate_numeric_cong:
  assumes "c_value a = c_value b"
    and "resolved_maxValue a f = resolved_maxValue b f"
    and "resolved_minValue a f = resolved_minValue b f"
    and "resolved_minStep a f = resolved_minStep b f"
    and "validValues (props a) = validValues (props b)"
    and "validValueRanges (props a) = validValueRanges (props b)"
  shows "validate_numeric a f v = validate_numeric b f v"
  unfolding validate_numeric_def assms by (rule refl)

lemma validateValue_cong:
  assumes "format (props a) = format (props b)"
    and "validate_string a v = validate_string b v"
    and "\<And>f. validate_numeric a f v = validate_numeric b f v"
  shows "validateValue a v = validateValue b v"
  unfolding validateValue_def assms by (rule refl)

text \<open>
  C10. For \<open>validateValue\<close> a declared \<open>maxValue\<close>, \<open>minValue\<close> or \<open>minStep\<close> of 0 is the same
  as none: whatever the object and the input, the result is the one obtained with that
  constraint undeclared. A float characteristic with \<open>maxValue = 0\<close> returns the input 5
  as 5.
\<close>

theorem zero_constraint_is_undeclared:
  "validateValue (this\<lparr>props := (props this)\<lparr>maxValue := Some 0\<rparr>\<rparr>) v
     = validateValue (this\<lparr>props := (props this)\<lparr>maxValue := None\<rparr>\<rparr>) v
   \<and> validateValue (this\<lparr>props := (props this)\<lparr>minValue := Some 0\<rparr>\<rparr>) v
     = validateValue (this\<lparr>props := (props this)\<lparr>minValue := None\<rparr>\<rparr>) v
   \<and> validateValue (this\<lparr>props := (props this)\<lparr>minStep := Some 0\<rparr>\<rparr>) v
     = validateValue (this\<lparr>props := (props this)\<lparr>minStep := None\<rparr>\<rparr>) v
   \<and> validateValue (example (example_props FLOAT None (Some 0)) JNull) (JNum (Fin 5))
     = Inr (JNum (Fin 5))"
proof -
  have ex: "validateValue (example (example_props FLOAT None (Some 0)) JNull) (JNum (Fin 5))
     = Inr (JNum (Fin 5))"
    by (simp add: validateValue_def validate_numeric_def parseInt_5 isNaN_def example_def
        example_props_def default_props_def resolved_maxValue_def resolved_minValue_def
        resolved_minStep_def override_def default_maxValue_def default_minValue_def
        default_minStep_def number_or_undefined_def js_lt_def js_gt_def ToNumber_def
        null_if_undefined_def is_nullish_def)
  show ?thesis
    by (intro conjI validateValue_cong validate_numeric_cong ex)
      (simp_all add: validate_string_def resolved_maxValue_def resolved_minValue_def
        resolved_minStep_def override_zero)
qed

theorem zero_constraint_is_undeclared_witness:
  "validateValue (example (example_props UINT8 None (Some 0)) JNull) (JNum (Fin 5))
     = validateValue (example (example_props UINT8 None None) JNull) (JNum (Fin 5))
   \<and> validateValue (example (example_props FLOAT None (Some 0)) JNull) (JNum (Fin 5))
     = Inr (JNum (Fin 5))"
  using zero_constraint_is_undeclared
          [of "example (example_props UINT8 None None) JNull" "JNum (Fin 5)"]
  by (simp add: example_def example_props_def default_props_def)

section \<open>The wire record: toHAP\<close>

subsection \<open>C7: strings and their byte length\<close>

lemma utf8_encode_ascii: "c < 128 \<Longrightarrow> utf8_encode (c # cs) = c # utf8_encode cs"
  by (cases cs) (simp_all add: encode_code_point_def is_high_surrogate_def is_low_surrogate_def)

lemma utf8_encode_replicate:
  "c < 128 \<Longrightarrow> utf8_encode (replicate n c @ cs) = replicate n c @ utf8_encode cs"
  by (induction n) (simp_all add: utf8_encode_ascii)

lemma utf8_decode_replicate:
  "b < 128 \<Longrightarrow> utf8_decode (replicate n b @ bs) = replicate n b @ utf8_decode bs"
  by (induction n) simp_all

lemma utf8_encode_ascii_string: "list_all (\<lambda>c. c < 128) s \<Longrightarrow> utf8_encode s = s"
  by (induction s) (simp_all add: utf8_encode_ascii)

lemma utf8_decode_ascii_bytes: "list_all (\<lambda>b. b < 128) bs \<Longrightarrow> utf8_decode bs = bs"
  by (induction bs) simp_all

text \<open>
  What \<open>toHAP\<close> does with a cached string (of a readable string characteristic that is
  not event-only and declares no numeric bounds): \<open>maxLen\<close> is 256 above 256 bytes, the
  byte length from 65 to 256 bytes and absent up to 64 bytes; above 256 bytes the value is
  the decoding of the first 256 bytes, otherwise the string itself.
\<close>

lemma toHAP_string:
  assumes "format (props this) = Some STRING" and "c_value this = JStr s"
    and "\<not> eventOnlyCharacteristic this"
    and "minValue (props this) = None" and "maxValue (props this) = None"
    and "PAIRED_READ \<in> set (perms (props this))"
  shows "\<exists>hap. toHAP toShortForm this None = Inr hap
           \<and> hap_maxLen hap = (if 256 < length (utf8_encode s) then Some 256
                               else if 64 < length (utf8_encode s)
                                    then Some (length (utf8_encode s)) else None)
           \<and> hap_value hap = Some (JStr (if 256 < length (utf8_encode s)
                                          then utf8_decode (take 256 (utf8_encode s)) else s))"
  using assms by (simp add: toHAP_def toHAP_number_def Buffer_from_def Let_def)

text \<open>When no character of the string takes more than one byte, the cut leaves 256 bytes.\<close>

lemma ascii_truncation_exact:
  assumes "list_all (\<lambda>c. c < 128) s" and "256 < length s"
  shows "length (utf8_encode (utf8_decode (take 256 (utf8_encode s)))) = 256"
proof -
  have t: "list_all (\<lambda>c. c < 128) (take 256 s)"
    using assms(1) by (auto simp add: list_all_iff dest: in_set_takeD)
  show ?thesis
    using assms(2) by (simp add: utf8_encode_ascii_string assms(1) utf8_decode_ascii_bytes t)
qed

text \<open>
  C7 at the string of 255 letters \<open>a\<close> followed by U+00E9 (e with an acute accent), a
  string of 256 characters and 257 bytes that a characteristic with \<open>maxLen = 256\<close>
  accepts as it is: the first 256 bytes end in the middle of the last character, their
  decoding ends in U+FFFD, and the value sent with \<open>maxLen = 256\<close> takes 258 bytes.
\<close>

theorem toHAP_truncation_splits_character:
  "validateValue (example ((example_props STRING None None)\<lparr>maxLen := Some 256\<rparr>) (JStr []))
     (JStr (replicate 255 97 @ [233]))
     = Inr (JStr (replicate 255 97 @ [233]))
   \<and> map_sum id (\<lambda>hap. (hap_value hap, hap_maxLen hap))
       (toHAP toShortForm
          (example ((example_props STRING None None)\<lparr>maxLen := Some 256\<rparr>)
             (JStr (replicate 255 97 @ [233]))) None)
       = Inr (Some (JStr (replicate 255 97 @ [65533])), Some 256)
   \<and> length (utf8_encode (replicate 255 97 @ [233])) = 257
   \<and> length (utf8_encode (replicate 255 97 @ [65533])) = 258"
proof -
  have enc: "utf8_encode (replicate 255 97 @ [233]) = replicate 255 97 @ [195, 169]"
    by (simp add: utf8_encode_replicate encode_code_point_def is_high_surrogate_def
        is_low_surrogate_def)
  have enc': "utf8_encode (replicate 255 97 @ [65533]) = replicate 255 97 @ [239, 191, 189]"
    by (simp add: utf8_encode_replicate encode_code_point_def is_high_surrogate_def
        is_low_surrogate_def)
  have tk: "take 256 (replicate 255 97 @ [195, 169 :: nat]) = replicate 255 97 @ [195]"
    by simp
  have dec: "utf8_decode (replicate 255 97 @ [195]) = replicate 255 97 @ [65533]"
    by (subst utf8_decode_replicate) simp_all
  have val: "validateValue (example ((example_props STRING None None)\<lparr>maxLen := Some 256\<rparr>) (JStr []))
     (JStr (replicate 255 97 @ [233]))
     = Inr (JStr (replicate 255 97 @ [233]))"
    by (simp add: validateValue_def validate_string_def truthy_def ToString_def example_def
        example_props_def default_props_def)
  have hap: "map_sum id (\<lambda>hap. (hap_value hap, hap_maxLen hap))
       (toHAP toShortForm
          (example ((example_props STRING None None)\<lparr>maxLen := Some 256\<rparr>)
             (JStr (replicate 255 97 @ [233]))) None)
       = Inr (Some (JStr (replicate 255 97 @ [65533])), Some 256)"
    by (simp add: toHAP_def toHAP_number_def Buffer_from_def enc tk dec example_def
        example_props_def default_props_def Let_def)
  show ?thesis
    using val hap by (simp add: enc enc')
qed

subsection \<open>C8: the key "value"\<close>

text \<open>
  C8. Whatever record \<open>toHAP\<close> returns has no key "value" when the permissions lack
  paired-read, whatever the cached value, and none when the option \<open>omitValues\<close> is
  passed, whatever the permissions. For every format but the string format \<open>toHAP\<close> does
  return a record (for a string it throws when the value to send is not a string).
\<close>

theorem toHAP_omits_value:
  "(\<forall>hap. toHAP toShortForm this opt = Inr hap \<longrightarrow>
        (PAIRED_READ \<notin> set (perms (props this)) \<longrightarrow> hap_value hap = None)
      \<and> ((\<exists>options. opt = Some options \<and> omitValues options) \<longrightarrow> hap_value hap = None))
   \<and> (format (props this) \<noteq> Some STRING \<longrightarrow> (\<exists>hap. toHAP toShortForm this opt = Inr hap))"
  by (auto simp add: toHAP_def Let_def split: sum.splits option.splits if_splits)

theorem toHAP_omits_value_witness:
  "c_value (example (default_props\<lparr>format := Some BOOL, perms := [PAIRED_WRITE]\<rparr>) (JBool True))
     \<noteq> JNull
   \<and> (\<exists>hap. toHAP id (example (default_props\<lparr>format := Some BOOL, perms := [PAIRED_WRITE]\<rparr>)
                          (JBool True)) None = Inr hap
            \<and> hap_value hap = None)
   \<and> (\<exists>hap. toHAP id (example (example_props BOOL None None) (JBool True))
                  (Some \<lparr>omitValues = True\<rparr>) = Inr hap
            \<and> hap_value hap = None)
   \<and> (\<exists>hap. toHAP id (example (example_props BOOL None None) (JBool True)) None = Inr hap
            \<and> hap_value hap = Some (JBool True))"
proof -
  have a: "\<exists>hap. toHAP id (example (example_props BOOL None None) (JBool True)) None
               = Inr hap \<and> hap_value hap = Some (JBool True)"
    by (simp add: toHAP_def toHAP_number_def example_def example_props_def default_props_def)
  show ?thesis
    using toHAP_omits_value
        [of id "example (default_props\<lparr>format := Some BOOL, perms := [PAIRED_WRITE]\<rparr>) (JBool True)"
            None]
      toHAP_omits_value
        [of id "example (example_props BOOL None None) (JBool True)" "Some \<lparr>omitValues = True\<rparr>"]
      a
    by (auto simp add: example_def example_props_def default_props_def)
qed

section \<open>serialize and deserialize: the round trip\<close>

lemma assign_no_props [simp]: "assign_props p no_props = p"
  by (simp add: assign_props_def no_props_def)

lemma new_Characteristic_result:
  "new_Characteristic S name uuid (Some p) =
     (case (minValue p, maxValue p) of
        (Some lo, Some hi) \<Rightarrow>
          if hi < lo then Inl (Error (setProps_message name))
          else Inr \<lparr> displayName = name, UUID = uuid, iid = None, c_value = JNull,
                     status = SUCCESS S, eventOnlyCharacteristic = False, props = p,
                     subscriptions = 0, get_listeners = 0, set_listeners = 0 \<rparr>
      | _ \<Rightarrow> Inr \<lparr> displayName = name, UUID = uuid, iid = None, c_value = JNull,
                     status = SUCCESS S, eventOnlyCharacteristic = False, props = p,
                     subscriptions = 0, get_listeners = 0, set_listeners = 0 \<rparr>)"
  by (simp add: new_Characteristic_def setProps_def Let_def split: option.splits)

text \<open>
  C9. If the constraints of a characteristic are valid (a declared \<open>minValue\<close> is not
  above a declared \<open>maxValue\<close>), deserializing its serialized form succeeds and gives a
  characteristic with the same display name, UUID, constraints, cached value and
  event-only flag. Deserialization goes through the constructor: a serialized form
  whose \<open>minValue\<close> is above its \<open>maxValue\<close> fails with the error of the constructor, and
  any error of the constructor on these arguments is the error of \<open>deserialize\<close>.
\<close>

theorem serialize_deserialize:
  "((\<forall>lo hi. minValue (props this) = Some lo \<longrightarrow> maxValue (props this) = Some hi \<longrightarrow> lo \<le> hi) \<longrightarrow>
      (\<exists>this'. deserialize S (serialize this) = Inr this'
         \<and> displayName this' = displayName this \<and> UUID this' = UUID this
         \<and> props this' = props this \<and> c_value this' = c_value this
         \<and> eventOnlyCharacteristic this' = eventOnlyCharacteristic this))
   \<and> (\<forall>lo hi. minValue (ser_props json) = Some lo \<longrightarrow> maxValue (ser_props json) = Some hi \<longrightarrow>
         hi < lo \<longrightarrow>
         deserialize S json = Inl (Error (setProps_message (ser_displayName json)))
       \<and> new_Characteristic S (ser_displayName json) (ser_UUID json) (Some (ser_props json))
           = Inl (Error (setProps_message (ser_displayName json))))
   \<and> (\<forall>e. new_Characteristic S (ser_displayName json) (ser_UUID json) (Some (ser_props json))
            = Inl e \<longrightarrow> deserialize S json = Inl e)"
  by (auto simp add: deserialize_def serialize_def clone_def new_Characteristic_result
      split: option.splits)

theorem serialize_deserialize_witness:
  "(\<exists>this'. deserialize hap_status
              (serialize ((example (example_props UINT8 (Some 0) (Some 100)) (JNum (Fin 42)))
                            \<lparr>eventOnlyCharacteristic := True\<rparr>)) = Inr this'
      \<and> displayName this' = js ''Example'' \<and> UUID this' = js ''0000''
      \<and> props this' = example_props UINT8 (Some 0) (Some 100)
      \<and> c_value this' = JNum (Fin 42) \<and> eventOnlyCharacteristic this')
   \<and> deserialize hap_status
        (serialize (example (example_props UINT8 (Some 10) (Some 5)) (JNum (Fin 42))))
       = Inl (Error (setProps_message (js ''Example'')))
   \<and> new_Characteristic hap_status (js ''Example'') (js ''0000'')
         (Some (example_props UINT8 (Some 10) (Some 5)))
       = Inl (Error (setProps_message (js ''Example'')))"
  using serialize_deserialize
      [of "(example (example_props UINT8 (Some 0) (Some 100)) (JNum (Fin 42)))
             \<lparr>eventOnlyCharacteristic := True\<rparr>"
          hap_status
          "serialize (example (example_props UINT8 (Some 10) (Some 5)) (JNum (Fin 42)))"]
  by (simp add: example_def example_props_def default_props_def serialize_def clone_def)

end
